theory Spec2Isabelle
  imports Main "HOL-Library.Sublist"
begin

section \<open>JavaScript values\<close>

text \<open>
  The handlers read the provider's parsed JSON bodies dynamically (\<open>response.data.status\<close>,
  \<open>result?.url\<close>, \<open>a || b\<close>), so a body is a JavaScript value. Numbers are integers (the
  envelope's \<open>status\<close> is one); fractions and NaN are not represented. An object is its
  list of properties, the first binding of a key being the property's value.
\<close>

datatype jsval =
    JUndefined
  | JNull
  | JBool bool
  | JNum int
  | JStr string
  | JArr "jsval list"
  | JObj "(string \<times> jsval) list"

text \<open>Truthiness, as \<open>!x\<close>, \<open>x || y\<close>, \<open>x && y\<close> and \<open>if (x)\<close> test it.\<close>

fun truthy :: "jsval \<Rightarrow> bool" where
  "truthy JUndefined = False"
| "truthy JNull = False"
| "truthy (JBool b) = b"
| "truthy (JNum n) = (n \<noteq> 0)"
| "truthy (JStr s) = (s \<noteq> [])"
| "truthy (JArr xs) = True"
| "truthy (JObj kvs) = True"

definition js_or :: "jsval \<Rightarrow> jsval \<Rightarrow> jsval" where
  "js_or a b = (if truthy a then a else b)"

definition nullish :: "jsval \<Rightarrow> bool" where
  "nullish v = (v = JUndefined \<or> v = JNull)"

text \<open>
  \<open>field v k\<close> is \<open>v.k\<close> for a value that is neither \<open>undefined\<close> nor \<open>null\<close>. None of
  the keys the handlers read (status, msg, result, url, id, name, size, content_type,
  sha256, files, linkid, convert) is a property of the prototypes of strings, numbers,
  booleans or arrays, so on those the read gives \<open>undefined\<close>.
\<close>

fun field :: "jsval \<Rightarrow> string \<Rightarrow> jsval" where
  "field (JObj kvs) k = (case map_of kvs k of Some v \<Rightarrow> v | None \<Rightarrow> JUndefined)"
| "field v k = JUndefined"

text \<open>Optional chaining \<open>v?.k\<close>.\<close>

definition opt_chain :: "jsval \<Rightarrow> string \<Rightarrow> jsval" where
  "opt_chain v k = (if nullish v then JUndefined else field v k)"

text \<open>
  String conversion, as a template literal \<open>`${v}`\<close>, \<open>"..." + v\<close> and \<open>new Error(v)\<close>
  apply it. Integers print in decimal (JavaScript switches to exponent notation from
  \<open>10^21\<close> on, which is outside the numbers represented here).
\<close>

definition digit_char :: "nat \<Rightarrow> char" where
  "digit_char d = char_of (48 + d)"

function digits :: "nat \<Rightarrow> string" where
  "digits n = (if n < 10 then [digit_char n] else digits (n div 10) @ [digit_char (n mod 10)])"
  by pat_completeness auto
termination
  by (relation "measure (\<lambda>n. n)") auto

declare digits.simps [simp del]

definition int_to_string :: "int \<Rightarrow> string" where
  "int_to_string i = (if i < 0 then CHR ''-'' # digits (nat (- i)) else digits (nat i))"

fun join_comma :: "string list \<Rightarrow> string" where
  "join_comma [] = []"
| "join_comma [s] = s"
| "join_comma (s # t # ts) = s @ '','' @ join_comma (t # ts)"

fun to_string :: "jsval \<Rightarrow> string" where
  "to_string JUndefined = ''undefined''"
| "to_string JNull = ''null''"
| "to_string (JBool b) = (if b then ''true'' else ''false'')"
| "to_string (JNum n) = int_to_string n"
| "to_string (JStr s) = s"
| "to_string (JArr xs) =
     join_comma (map (\<lambda>x. if x = JUndefined \<or> x = JNull then [] else to_string x) xs)"
| "to_string (JObj kvs) = ''[object Object]''"

section \<open>Errors, HTTP exchanges and effects\<close>

text \<open>An axios response: the HTTP status and the parsed body.\<close>

record http_response =
  http_status :: nat
  http_data :: jsval

text \<open>
  A thrown value, with the fields the catch blocks read: \<open>axios.isCancel(error)\<close>,
  \<open>error.code\<close>, \<open>error.response\<close> and \<open>error.message\<close>.
\<close>

record js_error =
  is_cancel :: bool
  err_code :: "string option"
  err_response :: "http_response option"
  err_message :: string

text \<open>\<open>new Error(v)\<close>: a plain error, with no code and no response.\<close>

definition new_error :: "jsval \<Rightarrow> js_error" where
  "new_error v =
     \<lparr>is_cancel = False, err_code = None, err_response = None,
      err_message = (if v = JUndefined then [] else to_string v)\<rparr>"

text \<open>The TypeError of reading property \<open>k\<close> of \<open>undefined\<close> or \<open>null\<close> (V8's wording).\<close>

definition type_error :: "jsval \<Rightarrow> string \<Rightarrow> js_error" where
  "type_error v k =
     \<lparr>is_cancel = False, err_code = None, err_response = None,
      err_message = ''Cannot read properties of '' @ to_string v @ '' (reading '' @
        [CHR 0x27] @ k @ [CHR 0x27] @ '')''\<rparr>"

text \<open>The TypeError of calling \<open>.filter\<close> on a value that is not an array.\<close>

definition not_a_function :: "string \<Rightarrow> js_error" where
  "not_a_function what =
     \<lparr>is_cancel = False, err_code = None, err_response = None,
      err_message = what @ '' is not a function''\<rparr>"

text \<open>
  What the provider does with one HTTP exchange: it answers (axios resolves), the
  exchange fails (axios rejects: a network error, or a response whose HTTP status is
  not 2xx, carried in \<open>err_response\<close>), or it stalls past every bound.
\<close>

datatype net_result =
    Responds http_response
  | Fails js_error
  | Stalls

datatype settled =
    Resolved http_response
  | Rejected js_error

text \<open>
  The error axios rejects with when the \<open>timeout\<close> option (milliseconds) runs out; the
  handlers recognise it by \<open>error.code === "ECONNABORTED"\<close>.
\<close>

definition timeout_error :: "nat \<Rightarrow> js_error" where
  "timeout_error ms =
     \<lparr>is_cancel = False, err_code = Some ''ECONNABORTED'', err_response = None,
      err_message = ''timeout of '' @ digits ms @ ''ms exceeded''\<rparr>"

text \<open>
  \<open>await axios.get/post(..., {timeout})\<close>: \<open>None\<close> is an await that never settles, which
  is what a stalled exchange gives when no \<open>timeout\<close> option is passed.
\<close>

definition axios_request :: "nat option \<Rightarrow> net_result \<Rightarrow> settled option" where
  "axios_request timeout r =
     (case r of
        Responds resp \<Rightarrow> Some (Resolved resp)
      | Fails e \<Rightarrow> Some (Rejected e)
      | Stalls \<Rightarrow> (case timeout of None \<Rightarrow> None | Some ms \<Rightarrow> Some (Rejected (timeout_error ms))))"

text \<open>
  The multipart form handed to \<open>axios.post\<close>: \<open>form.append("file1", source, {filename,
  contentType})\<close>. \<open>form_file\<close> holds the bytes the source yields, \<open>None\<close> when the source
  is \<open>undefined\<close> or a read stream over a missing file.
\<close>

record upload_form =
  form_file :: "string option"
  form_filename :: string
  form_content_type :: string

text \<open>
  The provider, as the function from a request to what happens to it: \<open>http_get url
  params\<close> and \<open>http_post url form\<close>.
\<close>

record provider =
  http_get :: "string \<Rightarrow> (string \<times> string) list \<Rightarrow> net_result"
  http_post :: "jsval \<Rightarrow> upload_form \<Rightarrow> net_result"

text \<open>The configuration read from the environment (index.js 82-84, 98).\<close>

record config =
  STREAMTAPE_LOGIN :: string
  STREAMTAPE_KEY :: string
  STREAMTAPE_FOLDER_ID :: string

definition API_BASE_URL :: string where
  "API_BASE_URL = ''https://api.streamtape.com''"

text \<open>
  The observable effects of a handler, in the order they happen. \<open>Send s b\<close> is
  \<open>res.status(s).json(b)\<close> (\<open>res.json(b)\<close> sends status 200); \<open>Console\<close> records the level
  and the fixed leading text of a console message, not the values interpolated in it.
\<close>

datatype level = LogLevel | WarnLevel | ErrorLevel

datatype effect =
    Get string "(string \<times> string) list" "nat option"
  | Post jsval upload_form "nat option"
  | Send jsval jsval
  | Console level string
  | Resume string
  | Unlink string

fun is_send :: "effect \<Rightarrow> bool" where
  "is_send (Send s b) = True"
| "is_send e = False"

fun is_post :: "effect \<Rightarrow> bool" where
  "is_post (Post u f t) = True"
| "is_post e = False"

fun is_upstream :: "effect \<Rightarrow> bool" where
  "is_upstream (Get u ps t) = True"
| "is_upstream (Post u f t) = True"
| "is_upstream e = False"

text \<open>\<open>res.headersSent\<close>: a response has been sent.\<close>

definition headers_sent :: "effect list \<Rightarrow> bool" where
  "headers_sent tr = (filter is_send tr \<noteq> [])"

text \<open>How a block of code ends: normally, by a throw, or never (an await that never settles).\<close>

datatype completion = Done | Thrown js_error | Pending

text \<open>
  \<open>res.status(s).json(b)\<close>: Express throws when the headers have been sent already.
\<close>

definition headers_sent_error :: js_error where
  "headers_sent_error =
     \<lparr>is_cancel = False, err_code = Some ''ERR_HTTP_HEADERS_SENT'', err_response = None,
      err_message = ''Cannot set headers after they are sent to the client''\<rparr>"

definition res_json :: "effect list \<Rightarrow> jsval \<Rightarrow> jsval \<Rightarrow> completion \<times> effect list" where
  "res_json tr s b =
     (if headers_sent tr then (Thrown headers_sent_error, tr) else (Done, tr @ [Send s b]))"

text \<open>The failure envelope \<open>{success: false, message}\<close>.\<close>

definition failure :: "string \<Rightarrow> jsval" where
  "failure m = JObj [(''success'', JBool False), (''message'', JStr m)]"

text \<open>\<open>error.response?.data?.msg || error.message\<close>.\<close>

definition error_text :: "js_error \<Rightarrow> jsval" where
  "error_text error =
     js_or (case err_response error of
              None \<Rightarrow> JUndefined
            | Some r \<Rightarrow> opt_chain (http_data r) ''msg'')
           (JStr (err_message error))"

section \<open>GET /api/videos (index.js 103-130)\<close>

text \<open>
  The callback of \<open>files.filter\<close>: \<open>file.linkid && file.convert === "converted"\<close>.
\<close>

definition keep_file :: "jsval \<Rightarrow> bool" where
  "keep_file file = (truthy (field file ''linkid'') \<and> field file ''convert'' = JStr ''converted'')"

text \<open>
  \<open>files.filter(callback)\<close> over the elements in order; reading \<open>linkid\<close> of a \<open>null\<close>
  element throws.
\<close>

fun filter_files :: "jsval list \<Rightarrow> js_error + jsval list" where
  "filter_files [] = Inr []"
| "filter_files (file # files) =
     (if nullish file then Inl (type_error file ''linkid'')
      else (case filter_files files of
              Inl e \<Rightarrow> Inl e
            | Inr videos \<Rightarrow> Inr (if keep_file file then file # videos else videos)))"

definition listfolder_url :: "config \<Rightarrow> string" where
  "listfolder_url cfg =
     API_BASE_URL @ ''/file/listfolder?login='' @ STREAMTAPE_LOGIN cfg @ ''&key='' @
       STREAMTAPE_KEY cfg @ ''&folder='' @ STREAMTAPE_FOLDER_ID cfg"

text \<open>The try block.\<close>

definition videos_try :: "config \<Rightarrow> provider \<Rightarrow> completion \<times> effect list" where
  "videos_try cfg net =
     (let streamtapeUrl = listfolder_url cfg;
          tr = [Get streamtapeUrl [] None]
      in case axios_request None (http_get net streamtapeUrl []) of
           None \<Rightarrow> (Pending, tr)
         | Some (Rejected e) \<Rightarrow> (Thrown e, tr)
         | Some (Resolved response) \<Rightarrow>
             (let data = http_data response
              in if nullish data then (Thrown (type_error data ''status''), tr)
                 else if field data ''status'' = JNum 200 \<and> truthy (field data ''result'') \<and>
                         truthy (field (field data ''result'') ''files'')
                 then (case field (field data ''result'') ''files'' of
                         JArr files \<Rightarrow>
                           (case filter_files files of
                              Inl e \<Rightarrow> (Thrown e, tr)
                            | Inr videos \<Rightarrow>
                                res_json tr (JNum 200)
                                  (JObj [(''success'', JBool True), (''videos'', JArr videos)]))
                       | other \<Rightarrow>
                           (Thrown (not_a_function ''response.data.result.files.filter''), tr))
                 else (let tr1 = tr @ [Console ErrorLevel ''Streamtape API error (listfolder):'']
                       in res_json tr1 (js_or (field data ''status'') (JNum 500))
                            (failure (to_string
                               (js_or (field data ''msg'') (JStr ''Failed to fetch videos.'')))))))"

text \<open>The handler: the try block and its catch.\<close>

definition get_videos :: "config \<Rightarrow> provider \<Rightarrow> completion \<times> effect list" where
  "get_videos cfg net =
     (case videos_try cfg net of
        (Thrown error, tr) \<Rightarrow>
          res_json (tr @ [Console ErrorLevel ''Error fetching videos:'']) (JNum 500)
            (failure ''Server error while fetching videos.'')
      | (c, tr) \<Rightarrow> (c, tr))"

section \<open>GET /api/videos/:linkId/download-link (index.js 196-237)\<close>

definition dl_url :: "string \<Rightarrow> jsval \<Rightarrow> string" where
  "dl_url linkId ticket =
     API_BASE_URL @ ''/file/dl?file='' @ linkId @ ''&ticket='' @ to_string ticket"

definition download_link_try :: "provider \<Rightarrow> string \<Rightarrow> jsval \<Rightarrow> completion \<times> effect list" where
  "download_link_try net linkId ticket =
     (let streamtapeUrl = dl_url linkId ticket;
          tr = [Get streamtapeUrl [] None]
      in case axios_request None (http_get net streamtapeUrl []) of
           None \<Rightarrow> (Pending, tr)
         | Some (Rejected e) \<Rightarrow> (Thrown e, tr)
         | Some (Resolved response) \<Rightarrow>
             (let data = http_data response
              in if nullish data then (Thrown (type_error data ''status''), tr)
                 else if field data ''status'' = JNum 200 \<and> truthy (field data ''result'') \<and>
                         truthy (field (field data ''result'') ''url'')
                 then res_json tr (JNum 200)
                        (JObj [(''success'', JBool True),
                               (''downloadUrl'', field (field data ''result'') ''url''),
                               (''filename'', field (field data ''result'') ''name'')])
                 else (let tr1 = tr @ [Console ErrorLevel ''Streamtape API error (dl for '']
                       in res_json tr1 (js_or (field data ''status'') (JNum 500))
                            (failure (to_string
                               (js_or (field data ''msg'') (JStr ''Failed to get download link.'')))))))"

text \<open>
  The handler. \<open>ticket\<close> is \<open>req.query.ticket\<close>: \<open>undefined\<close> when the query string has no
  ticket parameter.
\<close>

definition get_download_link :: "provider \<Rightarrow> string \<Rightarrow> jsval \<Rightarrow> completion \<times> effect list" where
  "get_download_link net linkId ticket =
     (if \<not> truthy ticket
      then res_json [] (JNum 400) (failure ''Download ticket is required.'')
      else (case download_link_try net linkId ticket of
              (Thrown error, tr) \<Rightarrow>
                res_json (tr @ [Console ErrorLevel ''Error fetching download link for ''])
                  (JNum 500) (failure ''Server error while fetching download link.'')
            | (c, tr) \<Rightarrow> (c, tr)))"

section \<open>POST /api/upload, direct stream (index.js 241-399)\<close>

text \<open>
  Busboy parses the multipart body and calls the handler's listeners: \<open>file\<close> for a file
  part (field name, stream, \<open>info.filename\<close>), \<open>field\<close> for a form field, and \<open>finish\<close>
  when the body has been parsed. A file part is its field name, the filename its header
  gives (\<open>undefined\<close> when it gives none) and its bytes.
\<close>

datatype part =
    FilePart string "string option" string
  | FieldPart string string

text \<open>The handler's variables \<open>fileStream\<close> and \<open>fileName\<close>, and the effects so far.\<close>

record upload_state =
  fileStream :: "string option"
  fileName :: string
  trace :: "effect list"

definition initial_state :: upload_state where
  "initial_state = \<lparr>fileStream = None, fileName = ''unknown_file'', trace = []\<rparr>"

text \<open>The \<open>file\<close> listener (index.js 250-269).\<close>

definition on_file :: "upload_state \<Rightarrow> string \<Rightarrow> string option \<Rightarrow> string \<Rightarrow> upload_state" where
  "on_file st fieldname filename file =
     (if fieldname \<noteq> ''videoFile''
      then st\<lparr>trace := trace st @ [Resume fieldname]\<rparr>
      else st\<lparr>trace := trace st @ [Console LogLevel ''Receiving file: ''],
              fileName := (case filename of
                             None \<Rightarrow> ''uploaded_video''
                           | Some n \<Rightarrow> if n \<noteq> [] then n else ''uploaded_video''),
              fileStream := Some file\<rparr>)"

text \<open>
  The \<open>error\<close> listener the \<open>file\<close> listener puts on the stream of a \<open>videoFile\<close> part
  (index.js 260-268). It runs when that stream fails, which is not a step of a request
  whose body is parsed to its end.
\<close>

definition on_file_error :: "upload_state \<Rightarrow> upload_state" where
  "on_file_error st =
     (let tr1 = trace st @ [Console ErrorLevel ''Error on file stream:'']
      in if \<not> headers_sent tr1
         then st\<lparr>trace := tr1 @ [Send (JNum 500) (failure ''File stream error during upload.'')]\<rparr>
         else st\<lparr>trace := tr1\<rparr>)"

text \<open>The \<open>field\<close> listener (index.js 271-276): its body is a comment.\<close>

definition on_field :: "upload_state \<Rightarrow> string \<Rightarrow> string \<Rightarrow> upload_state" where
  "on_field st fieldname val = st"

fun on_part :: "upload_state \<Rightarrow> part \<Rightarrow> upload_state" where
  "on_part st (FilePart fieldname filename file) = on_file st fieldname filename file"
| "on_part st (FieldPart fieldname val) = on_field st fieldname val"

text \<open>\<open>req.pipe(busboy)\<close>: the listeners run on the parts in the order of the body.\<close>

definition parse_form :: "part list \<Rightarrow> upload_state" where
  "parse_form parts = foldl on_part initial_state parts"

definition ul_url :: string where
  "ul_url = API_BASE_URL @ ''/file/ul''"

definition ul_params :: "config \<Rightarrow> (string \<times> string) list" where
  "ul_params cfg =
     [(''login'', STREAMTAPE_LOGIN cfg), (''key'', STREAMTAPE_KEY cfg),
      (''folder'', STREAMTAPE_FOLDER_ID cfg)]"

text \<open>
  The try block from \<open>uploadUrl\<close> on (index.js 309-368). The progress callback only
  writes to the console, from progress events that are not part of this model.
\<close>

definition stream_transfer ::
  "provider \<Rightarrow> upload_state \<Rightarrow> jsval \<Rightarrow> effect list \<Rightarrow> completion \<times> effect list" where
  "stream_transfer net st uploadUrl tr =
     (let tr1 = tr @ [Console LogLevel ''Streamtape upload URL obtained: ''];
          form = \<lparr>form_file = fileStream st, form_filename = fileName st,
                  form_content_type = ''application/octet-stream''\<rparr>;
          tr2 = tr1 @ [Post uploadUrl form (Some 300000)]
      in case axios_request (Some 300000) (http_post net uploadUrl form) of
           None \<Rightarrow> (Pending, tr2)
         | Some (Rejected e) \<Rightarrow> (Thrown e, tr2)
         | Some (Resolved uploadResponse) \<Rightarrow>
             (let data = http_data uploadResponse
              in if nullish data then (Thrown (type_error data ''status''), tr2)
                 else if field data ''status'' \<noteq> JNum 200 \<or>
                         \<not> truthy (opt_chain (field data ''result'') ''id'')
                 then (Thrown (new_error (js_or (field data ''msg'')
                         (JStr ''Upload failed or no file ID returned from Streamtape.''))), tr2)
                 else (let result = field data ''result'';
                           tr3 = tr2 @ [Console LogLevel ''File '']
                       in res_json tr3 (JNum 200)
                            (JObj [(''success'', JBool True),
                                   (''message'', JStr ''Video uploaded successfully!''),
                                   (''data'', JObj
                                      [(''fileId'', field result ''id''),
                                       (''fileName'', field result ''name''),
                                       (''streamUrl'', JStr (''https://streamtape.com/e/'' @
                                          to_string (field result ''id''))),
                                       (''downloadUrl'', field result ''url''),
                                       (''size'', field result ''size''),
                                       (''contentType'', field result ''content_type''),
                                       (''sha256'', field result ''sha256'')])]))))"

text \<open>The try block (index.js 288-368).\<close>

definition stream_try :: "config \<Rightarrow> provider \<Rightarrow> upload_state \<Rightarrow> completion \<times> effect list" where
  "stream_try cfg net st =
     (let tr1 = trace st @ [Get ul_url (ul_params cfg) (Some 60000)]
      in case axios_request (Some 60000) (http_get net ul_url (ul_params cfg)) of
           None \<Rightarrow> (Pending, tr1)
         | Some (Rejected e) \<Rightarrow> (Thrown e, tr1)
         | Some (Resolved initResponse) \<Rightarrow>
             (let data = http_data initResponse
              in if nullish data then (Thrown (type_error data ''status''), tr1)
                 else if field data ''status'' \<noteq> JNum 200 \<or>
                         \<not> truthy (opt_chain (field data ''result'') ''url'')
                 then (Thrown (new_error (js_or (field data ''msg'')
                         (JStr ''Failed to get upload URL from Streamtape.''))), tr1)
                 else stream_transfer net st (field (field data ''result'') ''url'') tr1))"

text \<open>The catch block (index.js 369-394).\<close>

definition stream_catch :: "js_error \<Rightarrow> effect list \<Rightarrow> effect list" where
  "stream_catch error tr =
     (let tr1 = tr @ [Console ErrorLevel ''Error during Streamtape upload process:'']
      in if \<not> headers_sent tr1
         then (if is_cancel error
               then tr1 @ [Send (JNum 504) (failure ''Upload cancelled by timeout.'')]
               else if err_code error = Some ''ECONNABORTED''
               then tr1 @ [Send (JNum 504) (failure ''Upload timed out after a long wait.'')]
               else tr1 @ [Send (JNum 500)
                      (failure (''Failed to upload video: '' @ to_string (error_text error)))])
         else tr1)"

definition stream_try_catch ::
  "config \<Rightarrow> provider \<Rightarrow> upload_state \<Rightarrow> completion \<times> effect list" where
  "stream_try_catch cfg net st =
     (case stream_try cfg net st of
        (Thrown error, tr) \<Rightarrow> (Done, stream_catch error tr)
      | (c, tr) \<Rightarrow> (c, tr))"

text \<open>The \<open>finish\<close> listener (index.js 278-395).\<close>

definition on_finish :: "config \<Rightarrow> provider \<Rightarrow> upload_state \<Rightarrow> completion \<times> effect list" where
  "on_finish cfg net st =
     (if fileStream st = None
      then (let tr1 = trace st @ [Console WarnLevel ''No file stream found in upload request.'']
            in if \<not> headers_sent tr1
               then (Done, tr1 @ [Send (JNum 400) (failure ''No file uploaded.'')])
               else stream_try_catch cfg net (st\<lparr>trace := tr1\<rparr>))
      else stream_try_catch cfg net st)"

text \<open>One request: the body is parsed, then \<open>finish\<close> runs.\<close>

definition upload_stream :: "config \<Rightarrow> provider \<Rightarrow> part list \<Rightarrow> completion \<times> effect list" where
  "upload_stream cfg net parts = on_finish cfg net (parse_form parts)"

section \<open>POST /api/upload, the earlier direct-stream version (part_000 240-397)\<close>

text \<open>
  The listeners \<open>file\<close> and \<open>field\<close> have the same text as in index.js (\<open>on_file\<close>,
  \<open>on_field\<close>). The calls to the provider pass no \<open>timeout\<close>, and the catch block has
  one answer for every error.
\<close>

definition legacy_transfer ::
  "provider \<Rightarrow> upload_state \<Rightarrow> jsval \<Rightarrow> effect list \<Rightarrow> completion \<times> effect list" where
  "legacy_transfer net st uploadUrl tr =
     (let tr1 = tr @ [Console LogLevel ''Streamtape upload URL obtained: ''];
          form = \<lparr>form_file = fileStream st, form_filename = fileName st,
                  form_content_type = ''application/octet-stream''\<rparr>;
          tr2 = tr1 @ [Post uploadUrl form None]
      in case axios_request None (http_post net uploadUrl form) of
           None \<Rightarrow> (Pending, tr2)
         | Some (Rejected e) \<Rightarrow> (Thrown e, tr2)
         | Some (Resolved uploadResponse) \<Rightarrow>
             (let data = http_data uploadResponse
              in if nullish data then (Thrown (type_error data ''status''), tr2)
                 else if field data ''status'' \<noteq> JNum 200 \<or>
                         \<not> truthy (opt_chain (field data ''result'') ''id'')
                 then (Thrown (new_error (js_or (field data ''msg'')
                         (JStr ''Upload failed or no file ID returned from Streamtape.''))), tr2)
                 else (let result = field data ''result'';
                           tr3 = tr2 @ [Console LogLevel ''File '']
                       in res_json tr3 (JNum 200)
                            (JObj [(''success'', JBool True),
                                   (''message'', JStr ''Video uploaded successfully!''),
                                   (''data'', JObj
                                      [(''fileId'', field result ''id''),
                                       (''fileName'', field result ''name''),
                                       (''streamUrl'', JStr (''https://streamtape.com/e/'' @
                                          to_string (field result ''id''))),
                                       (''downloadUrl'', field result ''url''),
                                       (''size'', field result ''size''),
                                       (''contentType'', field result ''content_type''),
                                       (''sha256'', field result ''sha256'')])]))))"

definition legacy_try :: "config \<Rightarrow> provider \<Rightarrow> upload_state \<Rightarrow> completion \<times> effect list" where
  "legacy_try cfg net st =
     (let tr1 = trace st @ [Get ul_url (ul_params cfg) None]
      in case axios_request None (http_get net ul_url (ul_params cfg)) of
           None \<Rightarrow> (Pending, tr1)
         | Some (Rejected e) \<Rightarrow> (Thrown e, tr1)
         | Some (Resolved initResponse) \<Rightarrow>
             (let data = http_data initResponse
              in if nullish data then (Thrown (type_error data ''status''), tr1)
                 else if field data ''status'' \<noteq> JNum 200 \<or>
                         \<not> truthy (opt_chain (field data ''result'') ''url'')
                 then (Thrown (new_error (js_or (field data ''msg'')
                         (JStr ''Failed to get upload URL from Streamtape.''))), tr1)
                 else legacy_transfer net st (field (field data ''result'') ''url'') tr1))"

text \<open>The catch block (part_000 378-392).\<close>

definition legacy_catch :: "js_error \<Rightarrow> effect list \<Rightarrow> effect list" where
  "legacy_catch error tr =
     (let tr1 = tr @ [Console ErrorLevel ''Error during Streamtape upload process:'']
      in if \<not> headers_sent tr1
         then tr1 @ [Send (JNum 500)
                (failure (''Failed to upload video: '' @ to_string (error_text error)))]
         else tr1)"

definition legacy_try_catch ::
  "config \<Rightarrow> provider \<Rightarrow> upload_state \<Rightarrow> completion \<times> effect list" where
  "legacy_try_catch cfg net st =
     (case legacy_try cfg net st of
        (Thrown error, tr) \<Rightarrow> (Done, legacy_catch error tr)
      | (c, tr) \<Rightarrow> (c, tr))"

definition legacy_finish :: "config \<Rightarrow> provider \<Rightarrow> upload_state \<Rightarrow> completion \<times> effect list" where
  "legacy_finish cfg net st =
     (if fileStream st = None
      then (let tr1 = trace st @ [Console WarnLevel ''No file stream found in upload request.'']
            in if \<not> headers_sent tr1
               then (Done, tr1 @ [Send (JNum 400) (failure ''No file uploaded.'')])
               else legacy_try_catch cfg net (st\<lparr>trace := tr1\<rparr>))
      else legacy_try_catch cfg net st)"

definition upload_legacy :: "config \<Rightarrow> provider \<Rightarrow> part list \<Rightarrow> completion \<times> effect list" where
  "upload_legacy cfg net parts = legacy_finish cfg net (parse_form parts)"

section \<open>POST /api/upload, disk-buffered (part_000 694-853)\<close>

text \<open>
  \<open>upload.single("videoFile")\<close> is multer's middleware with disk storage: it runs before
  the handler and leaves in \<open>req.file\<close> the file it stored (\<open>undefined\<close> when it stored
  none); \<open>path\<close> is where it wrote the bytes. The handler is modelled from \<open>req.file\<close>
  on.
\<close>

record disk_file =
  originalname :: string
  mimetype :: string
  path :: string

text \<open>
  The file system: the bytes at each path, and the paths the operating system refuses
  to delete.
\<close>

record filesystem =
  contents :: "string \<Rightarrow> string option"
  protected :: "string set"

definition fs_error :: "string \<Rightarrow> js_error" where
  "fs_error c =
     \<lparr>is_cancel = False, err_code = Some c, err_response = None, err_message = c\<rparr>"

text \<open>\<open>fsPromises.unlink(p)\<close>.\<close>

definition unlink :: "string \<Rightarrow> filesystem \<Rightarrow> js_error + filesystem" where
  "unlink p fs =
     (if contents fs p = None then Inl (fs_error ''ENOENT'')
      else if p \<in> protected fs then Inl (fs_error ''EPERM'')
      else Inr (fs\<lparr>contents := (contents fs)(p := None)\<rparr>))"

text \<open>The try block from \<open>uploadUrl\<close> on (part_000 750-815).\<close>

definition disk_transfer ::
  "provider \<Rightarrow> filesystem \<Rightarrow> disk_file \<Rightarrow> jsval \<Rightarrow> effect list \<Rightarrow> completion \<times> effect list" where
  "disk_transfer net fs file uploadUrl tr =
     (let tr1 = tr @ [Console LogLevel ''Streamtape upload URL obtained for ''];
          form = \<lparr>form_file = contents fs (path file), form_filename = originalname file,
                  form_content_type =
                    (if mimetype file \<noteq> [] then mimetype file else ''application/octet-stream'')\<rparr>;
          tr2 = tr1 @ [Post uploadUrl form (Some 600000)]
      in case axios_request (Some 600000) (http_post net uploadUrl form) of
           None \<Rightarrow> (Pending, tr2)
         | Some (Rejected e) \<Rightarrow> (Thrown e, tr2)
         | Some (Resolved uploadResponse) \<Rightarrow>
             (let data = http_data uploadResponse
              in if nullish data then (Thrown (type_error data ''status''), tr2)
                 else if field data ''status'' \<noteq> JNum 200 \<or>
                         \<not> truthy (opt_chain (field data ''result'') ''id'')
                 then (Thrown (new_error (js_or (field data ''msg'')
                         (JStr ''Upload failed or no file ID returned from Streamtape.''))), tr2)
                 else (let result = field data ''result'';
                           tr3 = tr2 @ [Console LogLevel ''File '']
                       in res_json tr3 (JNum 200)
                            (JObj [(''success'', JBool True),
                                   (''message'', JStr ''Video uploaded successfully!''),
                                   (''data'', JObj
                                      [(''fileId'', field result ''id''),
                                       (''fileName'', field result ''name''),
                                       (''streamUrl'', JStr (''https://streamtape.com/e/'' @
                                          to_string (field result ''id''))),
                                       (''downloadUrl'', field result ''url''),
                                       (''size'', field result ''size''),
                                       (''contentType'', field result ''content_type''),
                                       (''sha256'', field result ''sha256'')])]))))"

text \<open>The try block (part_000 733-815).\<close>

definition disk_try ::
  "config \<Rightarrow> provider \<Rightarrow> filesystem \<Rightarrow> disk_file \<Rightarrow> completion \<times> effect list" where
  "disk_try cfg net fs file =
     (let tr1 = [Get ul_url (ul_params cfg) (Some 60000)]
      in case axios_request (Some 60000) (http_get net ul_url (ul_params cfg)) of
           None \<Rightarrow> (Pending, tr1)
         | Some (Rejected e) \<Rightarrow> (Thrown e, tr1)
         | Some (Resolved initResponse) \<Rightarrow>
             (let data = http_data initResponse
              in if nullish data then (Thrown (type_error data ''status''), tr1)
                 else if field data ''status'' \<noteq> JNum 200 \<or>
                         \<not> truthy (opt_chain (field data ''result'') ''url'')
                 then (Thrown (new_error (js_or (field data ''msg'')
                         (JStr ''Failed to get upload URL from Streamtape.''))), tr1)
                 else disk_transfer net fs file (field (field data ''result'') ''url'') tr1))"

text \<open>The catch block (part_000 816-838); its calls of \<open>res.status\<close> are not guarded.\<close>

definition disk_catch :: "js_error \<Rightarrow> effect list \<Rightarrow> completion \<times> effect list" where
  "disk_catch error tr =
     (let tr1 = tr @ [Console ErrorLevel ''Error during Streamtape upload process for local file:'']
      in if is_cancel error \<or> err_code error = Some ''ECONNABORTED''
         then res_json tr1 (JNum 504) (failure ''Upload to Streamtape timed out.'')
         else (case err_response error of
                 None \<Rightarrow>
                   res_json tr1 (JNum 500)
                     (failure (''Server error during upload: '' @ err_message error))
               | Some r \<Rightarrow>
                   if http_status r \<noteq> 0
                   then res_json tr1 (JNum (int (http_status r)))
                          (failure (''Streamtape API error: '' @ digits (http_status r) @ '' - '' @
                             to_string (js_or (opt_chain (http_data r) ''msg'')
                                              (JStr (err_message error)))))
                   else res_json tr1 (JNum 500)
                          (failure (''Server error during upload: '' @ err_message error))))"

text \<open>
  The finally block (part_000 839-852): the unlink is awaited, and its failure is caught
  and written to the console.
\<close>

definition disk_finally :: "string \<Rightarrow> effect list \<Rightarrow> filesystem \<Rightarrow> effect list \<times> filesystem" where
  "disk_finally tempFilePath tr fs =
     (if tempFilePath \<noteq> []
      then (case unlink tempFilePath fs of
              Inr fs' \<Rightarrow>
                (tr @ [Unlink tempFilePath, Console LogLevel ''Temporary file deleted: ''], fs')
            | Inl unlinkError \<Rightarrow>
                (tr @ [Unlink tempFilePath, Console ErrorLevel ''Error deleting temporary file ''],
                 fs))
      else (tr, fs))"

definition disk_try_catch ::
  "config \<Rightarrow> provider \<Rightarrow> filesystem \<Rightarrow> disk_file \<Rightarrow> completion \<times> effect list" where
  "disk_try_catch cfg net fs file =
     (case disk_try cfg net fs file of
        (Thrown error, tr) \<Rightarrow> disk_catch error tr
      | (c, tr) \<Rightarrow> (c, tr))"

text \<open>
  The handler (part_000 721-853). A try block that never completes never reaches its
  finally block; a throw out of the catch block leaves through the finally block.
\<close>

definition upload_disk ::
  "config \<Rightarrow> provider \<Rightarrow> filesystem \<Rightarrow> disk_file option \<Rightarrow>
     completion \<times> effect list \<times> filesystem" where
  "upload_disk cfg net fs req_file =
     (case req_file of
        None \<Rightarrow>
          (case res_json [] (JNum 400) (failure ''No video file provided.'') of
             (c, tr) \<Rightarrow> (c, tr, fs))
      | Some file \<Rightarrow>
          (let tempFilePath = path file
           in case disk_try_catch cfg net fs file of
                (Pending, tr) \<Rightarrow> (Pending, tr, fs)
              | (c, tr) \<Rightarrow>
                  (case disk_finally tempFilePath tr fs of (tr', fs') \<Rightarrow> (c, tr', fs'))))"

section \<open>POST /api/upload, in-memory buffer (part_001 94-99, 255-363)\<close>

text \<open>
  Multer with memory storage: \<open>req.file.buffer\<close> holds the bytes. No \<open>timeout\<close> is passed
  to axios.
\<close>

record memory_file =
  mem_originalname :: string
  mem_mimetype :: string
  buffer :: string

definition memory_transfer ::
  "provider \<Rightarrow> memory_file \<Rightarrow> jsval \<Rightarrow> effect list \<Rightarrow> completion \<times> effect list" where
  "memory_transfer net file uploadUrl tr =
     (let form = \<lparr>form_file = Some (buffer file), form_filename = mem_originalname file,
                  form_content_type =
                    (if mem_mimetype file \<noteq> [] then mem_mimetype file
                     else ''application/octet-stream'')\<rparr>;
          tr2 = tr @ [Post uploadUrl form None]
      in case axios_request None (http_post net uploadUrl form) of
           None \<Rightarrow> (Pending, tr2)
         | Some (Rejected e) \<Rightarrow> (Thrown e, tr2)
         | Some (Resolved uploadResponse) \<Rightarrow>
             (let data = http_data uploadResponse
              in if nullish data then (Thrown (type_error data ''status''), tr2)
                 else if field data ''status'' \<noteq> JNum 200 \<or>
                         \<not> truthy (opt_chain (field data ''result'') ''id'')
                 then (Thrown (new_error (js_or (field data ''msg'')
                         (JStr ''Upload failed or no file ID returned from Streamtape.''))), tr2)
                 else (let result = field data ''result''
                       in res_json tr2 (JNum 200)
                            (JObj [(''success'', JBool True),
                                   (''message'', JStr ''Video uploaded successfully!''),
                                   (''data'', JObj
                                      [(''fileId'', field result ''id''),
                                       (''fileName'', field result ''name''),
                                       (''streamUrl'', JStr (''https://streamtape.com/e/'' @
                                          to_string (field result ''id''))),
                                       (''downloadUrl'', field result ''url''),
                                       (''size'', field result ''size''),
                                       (''contentType'', field result ''content_type''),
                                       (''sha256'', field result ''sha256'')])]))))"

definition memory_try :: "config \<Rightarrow> provider \<Rightarrow> memory_file \<Rightarrow> completion \<times> effect list" where
  "memory_try cfg net file =
     (let tr1 = [Get ul_url (ul_params cfg) None]
      in case axios_request None (http_get net ul_url (ul_params cfg)) of
           None \<Rightarrow> (Pending, tr1)
         | Some (Rejected e) \<Rightarrow> (Thrown e, tr1)
         | Some (Resolved initResponse) \<Rightarrow>
             (let data = http_data initResponse
              in if nullish data then (Thrown (type_error data ''status''), tr1)
                 else if field data ''status'' \<noteq> JNum 200 \<or>
                         \<not> truthy (opt_chain (field data ''result'') ''url'')
                 then (Thrown (new_error (js_or (field data ''msg'')
                         (JStr ''Failed to get upload URL from Streamtape.''))), tr1)
                 else memory_transfer net file (field (field data ''result'') ''url'') tr1))"

text \<open>The catch block (part_001 351-362).\<close>

definition memory_catch :: "js_error \<Rightarrow> effect list \<Rightarrow> completion \<times> effect list" where
  "memory_catch error tr =
     res_json (tr @ [Console ErrorLevel ''Error in /api/upload route:'']) (JNum 500)
       (failure (''Failed to upload video: '' @ to_string (error_text error)))"

definition memory_try_catch ::
  "config \<Rightarrow> provider \<Rightarrow> memory_file \<Rightarrow> completion \<times> effect list" where
  "memory_try_catch cfg net file =
     (case memory_try cfg net file of
        (Thrown error, tr) \<Rightarrow> memory_catch error tr
      | (c, tr) \<Rightarrow> (c, tr))"

definition upload_memory ::
  "config \<Rightarrow> provider \<Rightarrow> memory_file option \<Rightarrow> completion \<times> effect list" where
  "upload_memory cfg net req_file =
     (case req_file of
        None \<Rightarrow> res_json [] (JNum 400) (failure ''No file uploaded.'')
      | Some file \<Rightarrow> memory_try_catch cfg net file)"

section \<open>Notions used in the statements\<close>

text \<open>A file part under the field name \<open>videoFile\<close>.\<close>

fun is_video_file :: "part \<Rightarrow> bool" where
  "is_video_file (FilePart fieldname filename file) = (fieldname = ''videoFile'')"
| "is_video_file (FieldPart fieldname val) = False"


text \<open>The \<open>file.resume()\<close> calls of a body: one for each file part under another field name.\<close>

fun drained :: "part list \<Rightarrow> effect list" where
  "drained [] = []"
| "drained (FilePart fieldname filename file # ps) =
     (if fieldname \<noteq> ''videoFile'' then Resume fieldname # drained ps else drained ps)"
| "drained (FieldPart fieldname val # ps) = drained ps"

text \<open>
  The negotiation step fails: the \<open>file/ul\<close> call stalls until its timeout, fails on the
  network, or is answered by an envelope whose status is not 200 or which has no
  \<open>result.url\<close>.
\<close>

definition negotiation_failed :: "net_result \<Rightarrow> bool" where
  "negotiation_failed r =
     (case r of
        Stalls \<Rightarrow> True
      | Fails e \<Rightarrow> True
      | Responds resp \<Rightarrow>
          field (http_data resp) ''status'' \<noteq> JNum 200 \<or>
          \<not> truthy (opt_chain (field (http_data resp) ''result'') ''url''))"


definition disk_form :: "filesystem \<Rightarrow> disk_file \<Rightarrow> upload_form" where
  "disk_form fs f =
     \<lparr>form_file = contents fs (path f), form_filename = originalname f,
      form_content_type =
        (if mimetype f \<noteq> [] then mimetype f else ''application/octet-stream'')\<rparr>"





fun is_unlink :: "effect \<Rightarrow> bool" where
  "is_unlink (Unlink p) = True"
| "is_unlink e = False"

fun is_console :: "effect \<Rightarrow> bool" where
  "is_console (Console l m) = True"
| "is_console e = False"

section \<open>Example inputs\<close>

definition example_config :: config where
  "example_config =
     \<lparr>STREAMTAPE_LOGIN = ''user'', STREAMTAPE_KEY = ''secret'', STREAMTAPE_FOLDER_ID = ''f1''\<rparr>"

text \<open>A folder listing with a converted file, a file still converting and a file without link id.\<close>

definition example_listing :: jsval where
  "example_listing =
     JObj [(''status'', JNum 200), (''msg'', JStr ''OK''),
           (''result'', JObj [(''files'', JArr
              [JObj [(''name'', JStr ''a.mp4''), (''linkid'', JStr ''abc''), (''convert'', JStr ''converted'')],
               JObj [(''name'', JStr ''b.mp4''), (''linkid'', JStr ''def''), (''convert'', JStr ''pending'')],
               JObj [(''name'', JStr ''c.mp4''), (''linkid'', JStr []), (''convert'', JStr ''converted'')]])])]"

definition listing_provider :: provider where
  "listing_provider =
     \<lparr>http_get = (\<lambda>url params. Responds \<lparr>http_status = 200, http_data = example_listing\<rparr>),
      http_post = (\<lambda>url form. Stalls)\<rparr>"

definition refused :: http_response where
  "refused =
     \<lparr>http_status = 200,
      http_data = JObj [(''status'', JNum 403), (''msg'', JStr ''Forbidden''),
                        (''result'', JNull)]\<rparr>"

text \<open>A provider that refuses the negotiation and would accept any transfer.\<close>

definition refusing_provider :: provider where
  "refusing_provider =
     \<lparr>http_get = (\<lambda>url params. Responds refused),
      http_post = (\<lambda>url form. Responds
        \<lparr>http_status = 200,
         http_data = JObj [(''status'', JNum 200), (''msg'', JStr ''OK''),
                           (''result'', JObj [(''id'', JStr ''x1'')])]\<rparr>)\<rparr>"

definition example_disk_file :: disk_file where
  "example_disk_file =
     \<lparr>originalname = ''clip.mp4'', mimetype = ''video/mp4'', path = ''/tmp/videoFile-1-2.mp4''\<rparr>"

definition example_fs :: filesystem where
  "example_fs =
     \<lparr>contents = (\<lambda>p. if p = ''/tmp/videoFile-1-2.mp4'' then Some ''0123456789'' else None),
      protected = {}\<rparr>"

definition example_memory_file :: memory_file where
  "example_memory_file =
     \<lparr>mem_originalname = ''clip.mp4'', mem_mimetype = ''video/mp4'', buffer = ''0123456789''\<rparr>"

text \<open>A provider that grants an upload URL and then never answers the transfer.\<close>

definition granted :: http_response where
  "granted =
     \<lparr>http_status = 200,
      http_data = JObj [(''status'', JNum 200), (''msg'', JStr ''OK''),
                        (''result'', JObj [(''url'', JStr ''https://tapecontent.net/ul/1'')])]\<rparr>"

definition stalling_provider :: provider where
  "stalling_provider =
     \<lparr>http_get = (\<lambda>url params. Responds granted), http_post = (\<lambda>url form. Stalls)\<rparr>"






section \<open>The listing and download-link routes\<close>

lemma filter_files_ok:
  "\<forall>f\<in>set files. \<not> nullish f \<Longrightarrow> filter_files files = Inr (filter keep_file files)"
  by (induction files) auto

text \<open>
  C10. When the provider answers \<open>GET /api/videos\<close>'s listing call with a success envelope
  (status 200) whose \<open>result.files\<close> is a list of file entries (none of them \<open>null\<close>), the
  handler answers 200 with \<open>videos\<close> being exactly the entries whose \<open>linkid\<close> is truthy and
  whose \<open>convert\<close> is the string \<open>"converted"\<close>, in the provider's order; every other
  entry is left out and nothing else is written.
\<close>

theorem videos_are_converted_files_with_linkid:
  assumes "http_get net (listfolder_url cfg) [] = Responds r"
    and "field (http_data r) ''status'' = JNum 200"
    and "field (field (http_data r) ''result'') ''files'' = JArr files"
    and "\<forall>f\<in>set files. \<not> nullish f"
  shows "get_videos cfg net =
     (Done, [Get (listfolder_url cfg) [] None,
             Send (JNum 200)
               (JObj [(''success'', JBool True),
                      (''videos'', JArr (filter (\<lambda>file. truthy (field file ''linkid'') \<and>
                                                   field file ''convert'' = JStr ''converted'') files))])])"
proof -
  have d: "\<not> nullish (http_data r)"
    using assms(2) by (auto simp: nullish_def)
  have res: "truthy (field (http_data r) ''result'')"
    using assms(3) by (cases "field (http_data r) ''result''") auto
  have k: "filter keep_file files =
           filter (\<lambda>file. truthy (field file ''linkid'') \<and>
                          field file ''convert'' = JStr ''converted'') files"
    by (rule filter_cong) (simp_all add: keep_file_def)
  show ?thesis
    using assms(1,2,3) d res filter_files_ok[OF assms(4)] k
    by (simp add: get_videos_def videos_try_def axios_request_def res_json_def
          headers_sent_def Let_def)
qed

theorem videos_are_converted_files_with_linkid_witness:
  "get_videos example_config listing_provider =
     (Done, [Get (listfolder_url example_config) [] None,
             Send (JNum 200)
               (JObj [(''success'', JBool True),
                      (''videos'', JArr
                         [JObj [(''name'', JStr ''a.mp4''), (''linkid'', JStr ''abc''),
                                (''convert'', JStr ''converted'')]])])])"
  using videos_are_converted_files_with_linkid
    [of listing_provider example_config "\<lparr>http_status = 200, http_data = example_listing\<rparr>"
        "[JObj [(''name'', JStr ''a.mp4''), (''linkid'', JStr ''abc''), (''convert'', JStr ''converted'')],
          JObj [(''name'', JStr ''b.mp4''), (''linkid'', JStr ''def''), (''convert'', JStr ''pending'')],
          JObj [(''name'', JStr ''c.mp4''), (''linkid'', JStr []), (''convert'', JStr ''converted'')]]"]
  by (simp add: listing_provider_def example_listing_def nullish_def)

text \<open>
  C9. A \<open>GET /api/videos/:linkId/download-link\<close> request whose query string has no ticket
  parameter is answered 400 with \<open>{success: false, message}\<close>, and that response is the
  handler's only effect: no call to the provider is made.
\<close>

theorem download_link_without_ticket:
  "get_download_link net linkId JUndefined =
     (Done, [Send (JNum 400)
               (JObj [(''success'', JBool False),
                      (''message'', JStr ''Download ticket is required.'')])]) \<and>
   filter is_upstream (snd (get_download_link net linkId JUndefined)) = []"
  by (simp add: get_download_link_def res_json_def headers_sent_def failure_def)

section \<open>Parsing the multipart body\<close>

lemma fold_without_video_file:
  "\<forall>p\<in>set parts. \<not> is_video_file p \<Longrightarrow>
     foldl on_part st parts = st\<lparr>trace := trace st @ drained parts\<rparr>"
proof (induction parts arbitrary: st)
  case Nil
  then show ?case by simp
next
  case (Cons p ps)
  then show ?case
    by (cases p) (simp_all add: on_file_def on_field_def)
qed

lemma drained_no_send: "filter is_send (drained parts) = []"
  by (induction parts rule: drained.induct) simp_all

lemma drained_no_upstream: "filter is_upstream (drained parts) = []"
  by (induction parts rule: drained.induct) simp_all

lemma fold_no_send:
  "filter is_send (trace (foldl on_part st parts)) = filter is_send (trace st)"
proof (induction parts arbitrary: st)
  case Nil
  then show ?case by simp
next
  case (Cons p ps)
  then show ?case
    by (cases p) (simp_all add: on_file_def on_field_def)
qed

text \<open>The \<open>error\<close> listener of the file stream answers 500 unless a response has been sent.\<close>

lemma file_error_sends:
  "filter is_send (trace (on_file_error st)) =
     (if headers_sent (trace st) then filter is_send (trace st)
      else [Send (JNum 500) (failure ''File stream error during upload.'')])"
  by (simp add: on_file_error_def headers_sent_def Let_def)

lemma fold_file_stream_none:
  "fileStream (foldl on_part st parts) = None \<longleftrightarrow>
     fileStream st = None \<and> (\<forall>p\<in>set parts. \<not> is_video_file p)"
proof (induction parts arbitrary: st)
  case Nil
  then show ?case by simp
next
  case (Cons p ps)
  then show ?case
    by (cases p) (auto simp: on_file_def on_field_def)
qed

section \<open>A request without a file\<close>

text \<open>
  C2. A \<open>POST /api/upload\<close> request whose body has no file part under \<open>videoFile\<close> is
  answered 400 with \<open>{success: false, message}\<close> and makes no call to the provider. In
  the two direct-stream versions the trace is the draining of the other file parts, the
  warning and the response, with no \<open>Get\<close> and no \<open>Post\<close> in it; in the multer versions
  (\<open>req.file\<close> undefined) the response is the only effect, and the file system is left
  as it was.
\<close>

theorem no_file_part_is_rejected:
  assumes "\<forall>p\<in>set parts. \<not> is_video_file p"
  shows "upload_stream cfg net parts =
           (Done, drained parts @
                  [Console WarnLevel ''No file stream found in upload request.'',
                   Send (JNum 400) (JObj [(''success'', JBool False),
                                          (''message'', JStr ''No file uploaded.'')])]) \<and>
         upload_legacy cfg net parts =
           (Done, drained parts @
                  [Console WarnLevel ''No file stream found in upload request.'',
                   Send (JNum 400) (JObj [(''success'', JBool False),
                                          (''message'', JStr ''No file uploaded.'')])]) \<and>
         upload_disk cfg net fs None =
           (Done, [Send (JNum 400) (JObj [(''success'', JBool False),
                                          (''message'', JStr ''No video file provided.'')])], fs) \<and>
         upload_memory cfg net None =
           (Done, [Send (JNum 400) (JObj [(''success'', JBool False),
                                          (''message'', JStr ''No file uploaded.'')])]) \<and>
         filter is_upstream (snd (upload_stream cfg net parts)) = [] \<and>
         filter is_upstream (snd (upload_legacy cfg net parts)) = []"
proof -
  have p: "parse_form parts = initial_state\<lparr>trace := drained parts\<rparr>"
    using fold_without_video_file[OF assms, of initial_state]
    by (simp add: parse_form_def initial_state_def)
  have s: "upload_stream cfg net parts =
           (Done, drained parts @
                  [Console WarnLevel ''No file stream found in upload request.'',
                   Send (JNum 400) (failure ''No file uploaded.'')])"
    by (simp add: upload_stream_def on_finish_def p initial_state_def headers_sent_def
          drained_no_send)
  have l: "upload_legacy cfg net parts =
           (Done, drained parts @
                  [Console WarnLevel ''No file stream found in upload request.'',
                   Send (JNum 400) (failure ''No file uploaded.'')])"
    by (simp add: upload_legacy_def legacy_finish_def p initial_state_def headers_sent_def
          drained_no_send)
  have d: "upload_disk cfg net fs None =
           (Done, [Send (JNum 400) (failure ''No video file provided.'')], fs)"
    by (simp add: upload_disk_def res_json_def headers_sent_def)
  have m: "upload_memory cfg net None = (Done, [Send (JNum 400) (failure ''No file uploaded.'')])"
    by (simp add: upload_memory_def res_json_def headers_sent_def)
  show ?thesis
    using s l d m by (simp add: failure_def drained_no_upstream)
qed

theorem no_file_part_is_rejected_witness:
  "upload_stream example_config refusing_provider
       [FieldPart ''title'' ''holiday'', FilePart ''thumb'' (Some ''t.png'') ''PNG''] =
     (Done, [Resume ''thumb'',
             Console WarnLevel ''No file stream found in upload request.'',
             Send (JNum 400) (JObj [(''success'', JBool False),
                                    (''message'', JStr ''No file uploaded.'')])]) \<and>
   upload_legacy example_config refusing_provider
       [FieldPart ''title'' ''holiday'', FilePart ''thumb'' (Some ''t.png'') ''PNG''] =
     (Done, [Resume ''thumb'',
             Console WarnLevel ''No file stream found in upload request.'',
             Send (JNum 400) (JObj [(''success'', JBool False),
                                    (''message'', JStr ''No file uploaded.'')])]) \<and>
   upload_disk example_config refusing_provider example_fs None =
     (Done, [Send (JNum 400) (JObj [(''success'', JBool False),
                                    (''message'', JStr ''No video file provided.'')])],
      example_fs) \<and>
   upload_memory example_config refusing_provider None =
     (Done, [Send (JNum 400) (JObj [(''success'', JBool False),
                                    (''message'', JStr ''No file uploaded.'')])])"
  using no_file_part_is_rejected
    [of "[FieldPart ''title'' ''holiday'', FilePart ''thumb'' (Some ''t.png'') ''PNG'']"
        example_config refusing_provider example_fs]
  by simp

section \<open>A failed negotiation\<close>

lemma stream_try_no_post:
  "negotiation_failed (http_get net ul_url (ul_params cfg)) \<Longrightarrow>
     filter is_post (snd (stream_try cfg net st)) = filter is_post (trace st)"
  by (auto simp: negotiation_failed_def stream_try_def axios_request_def Let_def
           split: net_result.splits)

lemma stream_catch_post: "filter is_post (stream_catch error tr) = filter is_post tr"
  by (simp add: stream_catch_def Let_def)

lemma stream_try_catch_no_post:
  "negotiation_failed (http_get net ul_url (ul_params cfg)) \<Longrightarrow>
     filter is_post (snd (stream_try_catch cfg net st)) = filter is_post (trace st)"
  using stream_try_no_post[of net cfg st]
  by (cases "stream_try cfg net st")
     (auto simp: stream_try_catch_def stream_catch_post split: completion.splits)

lemma fold_no_post:
  "filter is_post (trace (foldl on_part st parts)) = filter is_post (trace st)"
proof (induction parts arbitrary: st)
  case Nil
  then show ?case by simp
next
  case (Cons p ps)
  then show ?case
    by (cases p) (simp_all add: on_file_def on_field_def)
qed

lemma stream_no_post:
  "negotiation_failed (http_get net ul_url (ul_params cfg)) \<Longrightarrow>
     filter is_post (snd (upload_stream cfg net parts)) = []"
  by (simp add: upload_stream_def on_finish_def Let_def stream_try_catch_no_post
        parse_form_def fold_no_post initial_state_def)

lemma legacy_try_no_post:
  "negotiation_failed (http_get net ul_url (ul_params cfg)) \<Longrightarrow>
     filter is_post (snd (legacy_try cfg net st)) = filter is_post (trace st)"
  by (auto simp: negotiation_failed_def legacy_try_def axios_request_def Let_def
           split: net_result.splits)

lemma legacy_catch_post: "filter is_post (legacy_catch error tr) = filter is_post tr"
  by (simp add: legacy_catch_def Let_def)

lemma legacy_try_catch_no_post:
  "negotiation_failed (http_get net ul_url (ul_params cfg)) \<Longrightarrow>
     filter is_post (snd (legacy_try_catch cfg net st)) = filter is_post (trace st)"
  using legacy_try_no_post[of net cfg st]
  by (cases "legacy_try cfg net st")
     (auto simp: legacy_try_catch_def legacy_catch_post split: completion.splits)

lemma legacy_no_post:
  "negotiation_failed (http_get net ul_url (ul_params cfg)) \<Longrightarrow>
     filter is_post (snd (upload_legacy cfg net parts)) = []"
  by (simp add: upload_legacy_def legacy_finish_def Let_def legacy_try_catch_no_post
        parse_form_def fold_no_post initial_state_def)

lemma res_json_post: "filter is_post (snd (res_json tr s b)) = filter is_post tr"
  by (simp add: res_json_def)

lemma disk_try_no_post:
  "negotiation_failed (http_get net ul_url (ul_params cfg)) \<Longrightarrow>
     filter is_post (snd (disk_try cfg net fs f)) = []"
  by (auto simp: negotiation_failed_def disk_try_def axios_request_def Let_def
           split: net_result.splits)

lemma disk_catch_post: "filter is_post (snd (disk_catch error tr)) = filter is_post tr"
  by (simp add: disk_catch_def Let_def res_json_post split: option.splits)

lemma disk_finally_post: "filter is_post (fst (disk_finally p tr fs)) = filter is_post tr"
  by (simp add: disk_finally_def split: sum.splits)

lemma disk_try_catch_no_post:
  assumes "negotiation_failed (http_get net ul_url (ul_params cfg))"
  shows "filter is_post (snd (disk_try_catch cfg net fs f)) = []"
proof -
  obtain c tr where t: "disk_try cfg net fs f = (c, tr)"
    by (cases "disk_try cfg net fs f")
  have p: "filter is_post tr = []"
    using disk_try_no_post[OF assms, of fs f] t by simp
  show ?thesis
    by (cases c) (simp_all add: disk_try_catch_def t p disk_catch_post)
qed

lemma upload_disk_trace_post:
  "filter is_post (fst (snd (upload_disk cfg net fs (Some f)))) =
     filter is_post (snd (disk_try_catch cfg net fs f))"
proof -
  obtain c tr where t: "disk_try_catch cfg net fs f = (c, tr)"
    by (cases "disk_try_catch cfg net fs f")
  obtain tr' fs' where fin: "disk_finally (path f) tr fs = (tr', fs')"
    by (cases "disk_finally (path f) tr fs")
  have "filter is_post tr' = filter is_post tr"
    using disk_finally_post[of "path f" tr fs] fin by simp
  then show ?thesis
    by (cases c) (simp_all add: upload_disk_def t fin)
qed

lemma disk_no_post:
  assumes "negotiation_failed (http_get net ul_url (ul_params cfg))"
  shows "filter is_post (fst (snd (upload_disk cfg net fs req_file))) = []"
proof (cases req_file)
  case None
  then show ?thesis
    by (simp add: upload_disk_def res_json_def)
next
  case (Some f)
  then show ?thesis
    by (simp add: upload_disk_trace_post disk_try_catch_no_post[OF assms])
qed

lemma memory_try_no_post:
  "negotiation_failed (http_get net ul_url (ul_params cfg)) \<Longrightarrow>
     filter is_post (snd (memory_try cfg net f)) = []"
  by (auto simp: negotiation_failed_def memory_try_def axios_request_def Let_def
           split: net_result.splits)

lemma memory_no_post:
  assumes "negotiation_failed (http_get net ul_url (ul_params cfg))"
  shows "filter is_post (snd (upload_memory cfg net req_file)) = []"
proof (cases req_file)
  case None
  then show ?thesis
    by (simp add: upload_memory_def res_json_def)
next
  case (Some f)
  obtain c tr where t: "memory_try cfg net f = (c, tr)"
    by (cases "memory_try cfg net f")
  have p: "filter is_post tr = []"
    using memory_try_no_post[OF assms, of f] t by simp
  show ?thesis
    using Some
    by (cases c)
       (simp_all add: upload_memory_def memory_try_catch_def t p memory_catch_def res_json_post)
qed

text \<open>
  C3. If the negotiation step of a \<open>POST /api/upload\<close> request fails (the \<open>file/ul\<close>
  call times out, fails on the network, or is answered by an envelope whose status is
  not 200 or which has no result URL), the handler never calls \<open>axios.post\<close>: the trace
  holds no \<open>Post\<close>, in each of the four versions of the route and whatever the request
  carries.
\<close>

theorem failed_negotiation_never_posts:
  assumes "negotiation_failed (http_get net ul_url (ul_params cfg))"
  shows "filter is_post (snd (upload_stream cfg net parts)) = [] \<and>
         filter is_post (snd (upload_legacy cfg net parts)) = [] \<and>
         filter is_post (fst (snd (upload_disk cfg net fs disk_req_file))) = [] \<and>
         filter is_post (snd (upload_memory cfg net memory_req_file)) = []"
  using assms stream_no_post legacy_no_post disk_no_post memory_no_post
  by simp

theorem failed_negotiation_never_posts_witness:
  "negotiation_failed (http_get refusing_provider ul_url (ul_params example_config)) \<and>
   filter is_post (snd (upload_stream example_config refusing_provider
     [FilePart ''videoFile'' (Some ''clip.mp4'') ''0123456789''])) = [] \<and>
   filter is_post (snd (upload_legacy example_config refusing_provider
     [FilePart ''videoFile'' (Some ''clip.mp4'') ''0123456789''])) = [] \<and>
   filter is_post (fst (snd (upload_disk example_config refusing_provider example_fs
     (Some example_disk_file)))) = [] \<and>
   filter is_post (snd (upload_memory example_config refusing_provider
     (Some example_memory_file))) = []"
proof -
  have n: "negotiation_failed (http_get refusing_provider ul_url (ul_params example_config))"
    by (simp add: negotiation_failed_def refusing_provider_def refused_def)
  show ?thesis
    using n failed_negotiation_never_posts[OF n] by simp
qed

section \<open>Requests that carry a file\<close>

lemma parse_form_stream:
  "\<exists>p\<in>set parts. is_video_file p \<Longrightarrow> fileStream (parse_form parts) \<noteq> None"
  by (simp add: parse_form_def fold_file_stream_none)

lemma parse_form_sends: "filter is_send (trace (parse_form parts)) = []"
  by (simp add: parse_form_def fold_no_send initial_state_def)


lemma legacy_finish_with_file:
  "fileStream st \<noteq> None \<Longrightarrow> legacy_finish cfg net st = legacy_try_catch cfg net st"
  by (auto simp: legacy_finish_def)

lemma upload_disk_sends:
  "filter is_send (fst (snd (upload_disk cfg net fs (Some f)))) =
     filter is_send (snd (disk_try_catch cfg net fs f))"
proof -
  obtain c tr where t: "disk_try_catch cfg net fs f = (c, tr)"
    by (cases "disk_try_catch cfg net fs f")
  obtain tr' fs' where fin: "disk_finally (path f) tr fs = (tr', fs')"
    by (cases "disk_finally (path f) tr fs")
  have "filter is_send tr' = filter is_send tr"
    using fin by (auto simp: disk_finally_def split: if_splits sum.splits)
  then show ?thesis
    by (cases c) (simp_all add: upload_disk_def t fin)
qed

section \<open>A transfer that times out\<close>




text \<open>
  The earlier direct-stream version and the in-memory version pass no \<open>timeout\<close> to
  axios: when the transfer stalls, the await never settles, and the handler neither
  returns nor sends a response.
\<close>

lemma stalled_transfer_without_timeout:
  assumes "http_get net ul_url (ul_params cfg) = Responds r0"
    and "field (http_data r0) ''status'' = JNum 200"
    and "truthy (field (field (http_data r0) ''result'') ''url'')"
    and "\<And>form. http_post net (field (field (http_data r0) ''result'') ''url'') form = Stalls"
    and "\<exists>p\<in>set parts. is_video_file p"
  shows "fst (upload_legacy cfg net parts) = Pending \<and>
         filter is_send (snd (upload_legacy cfg net parts)) = [] \<and>
         fst (upload_memory cfg net (Some mf)) = Pending \<and>
         filter is_send (snd (upload_memory cfg net (Some mf))) = []"
proof -
  have d: "\<not> nullish (http_data r0)"
    using assms(2) by (auto simp: nullish_def)
  have r: "\<not> nullish (field (http_data r0) ''result'')"
    using assms(3) by (auto simp: nullish_def)
  have l: "fst (legacy_try_catch cfg net (parse_form parts)) = Pending \<and>
           filter is_send (snd (legacy_try_catch cfg net (parse_form parts))) = []"
    using assms(1-4) d r parse_form_sends[of parts]
    by (simp add: legacy_try_catch_def legacy_try_def legacy_transfer_def axios_request_def
          opt_chain_def Let_def)
  have m: "fst (memory_try_catch cfg net mf) = Pending \<and>
           filter is_send (snd (memory_try_catch cfg net mf)) = []"
    using assms(1-4) d r
    by (simp add: memory_try_catch_def memory_try_def memory_transfer_def axios_request_def
          opt_chain_def Let_def)
  show ?thesis
    using l m parse_form_stream[OF assms(5)]
    by (simp add: upload_legacy_def legacy_finish_with_file upload_memory_def)
qed



section \<open>The provider's message\<close>














section \<open>The success payload\<close>










section \<open>Parts other than the video\<close>































section \<open>The temporary file of the disk-buffered route\<close>

lemma disk_transfer_ends:
  assumes "filter is_send tr = []" and "filter is_unlink tr = []"
  shows "(\<exists>tr'. disk_transfer net fs f url tr = (Done, tr') \<and>
            length (filter is_send tr') = 1 \<and> filter is_unlink tr' = []) \<or>
         (\<exists>e tr'. disk_transfer net fs f url tr = (Thrown e, tr') \<and>
            filter is_send tr' = [] \<and> filter is_unlink tr' = [])"
  using assms
  by (cases "http_post net url (disk_form fs f)")
     (simp_all add: disk_transfer_def disk_form_def Let_def axios_request_def res_json_def
        headers_sent_def)

lemma disk_try_ends:
  "(\<exists>tr'. disk_try cfg net fs f = (Done, tr') \<and>
      length (filter is_send tr') = 1 \<and> filter is_unlink tr' = []) \<or>
   (\<exists>e tr'. disk_try cfg net fs f = (Thrown e, tr') \<and>
      filter is_send tr' = [] \<and> filter is_unlink tr' = [])"
proof (cases "http_get net ul_url (ul_params cfg)")
  case (Responds r)
  show ?thesis
    using Responds
      disk_transfer_ends[of "[Get ul_url (ul_params cfg) (Some 60000)]" net fs f
        "field (field (http_data r) ''result'') ''url''"]
    by (simp add: disk_try_def Let_def axios_request_def)
next
  case (Fails e)
  then show ?thesis
    by (simp add: disk_try_def Let_def axios_request_def)
next
  case Stalls
  then show ?thesis
    by (simp add: disk_try_def Let_def axios_request_def)
qed

lemma disk_catch_ends:
  assumes "filter is_send tr = []" and "filter is_unlink tr = []"
  shows "\<exists>tr'. disk_catch error tr = (Done, tr') \<and>
           length (filter is_send tr') = 1 \<and> filter is_unlink tr' = []"
  using assms
  by (simp add: disk_catch_def Let_def res_json_def headers_sent_def split: option.splits)

lemma disk_try_catch_ends:
  "\<exists>tr. disk_try_catch cfg net fs f = (Done, tr) \<and>
         length (filter is_send tr) = 1 \<and> filter is_unlink tr = []"
  using disk_try_ends[of cfg net fs f]
proof (elim disjE exE conjE)
  fix tr'
  assume "disk_try cfg net fs f = (Done, tr')" "length (filter is_send tr') = 1"
    "filter is_unlink tr' = []"
  then show ?thesis
    by (simp add: disk_try_catch_def)
next
  fix e tr'
  assume "disk_try cfg net fs f = (Thrown e, tr')" "filter is_send tr' = []"
    "filter is_unlink tr' = []"
  then show ?thesis
    using disk_catch_ends[of tr' e] by (simp add: disk_try_catch_def)
qed

lemma disk_transfer_protected:
  "disk_transfer net (fs\<lparr>protected := P\<rparr>) f url tr = disk_transfer net fs f url tr"
  by (simp add: disk_transfer_def)

lemma disk_try_catch_protected:
  "disk_try_catch cfg net (fs\<lparr>protected := P\<rparr>) f = disk_try_catch cfg net fs f"
proof -
  have "disk_try cfg net (fs\<lparr>protected := P\<rparr>) f = disk_try cfg net fs f"
    by (cases "http_get net ul_url (ul_params cfg)")
       (simp_all add: disk_try_def Let_def axios_request_def disk_transfer_protected)
  then show ?thesis
    by (simp add: disk_try_catch_def)
qed

text \<open>
  C1. A request the disk-buffered handler receives with a stored file (\<open>req.file\<close> with a
  path) always returns, whatever the provider does: it sends exactly one response, then
  calls \<open>unlink\<close> on the file's path once, then writes one console line, and these are
  its last effects. Afterwards the path holds no file unless the operating system
  refused the deletion, and no other path has changed. When the deletion is refused the
  file system is unchanged and the line is the error line; and the response is the same
  whether or not deletion is refused.
\<close>

theorem temporary_file_is_removed:
  assumes "path f \<noteq> []"
  shows "\<exists>pre logged fs'.
           upload_disk cfg net fs (Some f) = (Done, pre @ [Unlink (path f), logged], fs') \<and>
           length (filter is_send pre) = 1 \<and> filter is_unlink pre = [] \<and> is_console logged \<and>
           (path f \<notin> protected fs \<longrightarrow> contents fs' (path f) = None) \<and>
           (\<forall>p. p \<noteq> path f \<longrightarrow> contents fs' p = contents fs p) \<and>
           (contents fs (path f) \<noteq> None \<and> path f \<in> protected fs \<longrightarrow>
              fs' = fs \<and> logged = Console ErrorLevel ''Error deleting temporary file '') \<and>
           (\<forall>P. filter is_send (fst (snd (upload_disk cfg net (fs\<lparr>protected := P\<rparr>) (Some f)))) =
                filter is_send pre)"
proof -
  obtain tr where t: "disk_try_catch cfg net fs f = (Done, tr)"
    and one: "length (filter is_send tr) = 1" and nu: "filter is_unlink tr = []"
    using disk_try_catch_ends[of cfg net fs f] by blast
  have indep: "filter is_send (fst (snd (upload_disk cfg net (fs\<lparr>protected := P\<rparr>) (Some f)))) =
               filter is_send tr" for P
    using upload_disk_sends[of cfg net "fs\<lparr>protected := P\<rparr>" f] t
    by (simp add: disk_try_catch_protected)
  show ?thesis
  proof (cases "unlink (path f) fs")
    case (Inl e)
    then have u: "upload_disk cfg net fs (Some f) =
        (Done, tr @ [Unlink (path f), Console ErrorLevel ''Error deleting temporary file ''], fs)"
      using assms t by (simp add: upload_disk_def disk_finally_def)
    have a: "path f \<notin> protected fs \<longrightarrow> contents fs (path f) = None"
      using Inl by (auto simp: unlink_def split: if_splits)
    show ?thesis
      using u one nu a indep by simp
  next
    case (Inr fs1)
    then have u: "upload_disk cfg net fs (Some f) =
        (Done, tr @ [Unlink (path f), Console LogLevel ''Temporary file deleted: ''], fs1)"
      using assms t by (simp add: upload_disk_def disk_finally_def)
    have f1: "fs1 = fs\<lparr>contents := (contents fs)(path f := None)\<rparr>"
      and np: "\<not> (contents fs (path f) \<noteq> None \<and> path f \<in> protected fs)"
      using Inr by (auto simp: unlink_def split: if_splits)
    show ?thesis
      using u one nu f1 np indep by simp
  qed
qed

theorem temporary_file_is_removed_witness:
  "fst (upload_disk example_config stalling_provider example_fs (Some example_disk_file)) = Done \<and>
   contents (snd (snd (upload_disk example_config stalling_provider example_fs
                         (Some example_disk_file)))) ''/tmp/videoFile-1-2.mp4'' = None \<and>
   (\<exists>pre logged. fst (snd (upload_disk example_config stalling_provider example_fs
                             (Some example_disk_file))) =
                     pre @ [Unlink ''/tmp/videoFile-1-2.mp4'', logged] \<and>
                   length (filter is_send pre) = 1 \<and>
                   filter is_send (fst (snd (upload_disk example_config stalling_provider
                       (example_fs\<lparr>protected := {''/tmp/videoFile-1-2.mp4''}\<rparr>)
                       (Some example_disk_file)))) = filter is_send pre)"
proof -
  have p: "path example_disk_file \<noteq> []"
    by (simp add: example_disk_file_def)
  obtain pre logged fs' where
    u: "upload_disk example_config stalling_provider example_fs (Some example_disk_file) =
          (Done, pre @ [Unlink (path example_disk_file), logged], fs')"
    and one: "length (filter is_send pre) = 1"
    and gone: "path example_disk_file \<notin> protected example_fs \<longrightarrow>
                 contents fs' (path example_disk_file) = None"
    and same: "\<forall>P. filter is_send (fst (snd (upload_disk example_config stalling_provider
                 (example_fs\<lparr>protected := P\<rparr>) (Some example_disk_file)))) =
               filter is_send pre"
    using temporary_file_is_removed[OF p, of example_config stalling_provider example_fs]
    by blast
  have "contents fs' ''/tmp/videoFile-1-2.mp4'' = None"
    using gone by (simp add: example_fs_def example_disk_file_def)
  moreover have "path example_disk_file = ''/tmp/videoFile-1-2.mp4''"
    by (simp add: example_disk_file_def)
  ultimately show ?thesis
    using u one same by simp
qed

section \<open>The three sources of the bytes\<close>







end
